theory Spec2Isabelle
  imports Complex_Main "HOL-Library.Sublist"
begin

section \<open>Authentication tokens and the token cache (utils/auth.py)\<close>

text \<open>
  Timestamps are Python floats holding Unix seconds; they are modelled as reals, so the
  comparisons of the source are the comparisons of \<open>real\<close> and \<open>now + 3600\<close> is exact.
  Strings are \<open>string\<close>; \<open>Optional[str]\<close> is \<open>string option\<close>.
\<close>

record AuthToken =
  access_token :: string
  refresh_token :: "string option"
  expires_at :: real
  tenant_id :: string
  user_email :: string

text \<open>
  The keyword arguments of one \<open>requests.post\<close> call: the URL, the JSON payload, the
  headers and the timeout in seconds.
\<close>

record request =
  req_url :: string
  req_json :: "(string \<times> string) list"
  req_headers :: "(string \<times> string) list"
  req_timeout :: nat

text \<open>
  The decoded body \<open>data\<close> of a successful auth response, as far as the source reads it.
  \<open>None\<close> stands for a key that is absent from the dictionary. The value under
  \<open>"refresh_token"\<close> may be JSON \<open>null\<close> (\<open>Some None\<close>), which \<open>dict.get\<close> returns as
  it is; the other two values have the types of the fields they are stored in.
\<close>

record token_response =
  data_access_token :: "string option"
  data_refresh_token :: "string option option"
  data_expires_in :: "real option"

text \<open>
  What the three statements \<open>requests.post(...)\<close>, \<open>response.raise_for_status()\<close> and
  \<open>response.json()\<close> of a \<open>try\<close> block come to: \<open>requests.post\<close> itself raises
  (connection error, timeout: subclasses of \<open>requests.RequestException\<close>), or a response
  with an error status arrives and \<open>raise_for_status\<close> raises \<open>HTTPError\<close> (a subclass as
  well), or the body is decoded.
\<close>

datatype reply =
  Transport_failure
  | Http_error nat
  | Ok_json token_response

datatype error = ValueError string

text \<open>
  The state: the class-level dictionary \<open>_token_cache\<close>, the manager's \<open>api_base_url\<close>,
  and the two things outside the program that the code consults. \<open>clock k\<close> is the value
  of the \<open>k\<close>-th call of \<open>time.time()\<close> and \<open>ticks\<close> counts the calls made so far;
  \<open>network k req\<close> is what the \<open>k\<close>-th \<open>requests.post\<close> comes to when it sends \<open>req\<close>,
  and \<open>posts\<close> lists the requests sent so far, oldest first.
\<close>

record state =
  token_cache :: "string \<times> string \<rightharpoonup> AuthToken"
  api_base_url :: string
  clock :: "nat \<Rightarrow> real"
  ticks :: nat
  network :: "nat \<Rightarrow> request \<Rightarrow> reply"
  posts :: "request list"

definition EXPIRY_BUFFER_SECONDS :: real where
  "EXPIRY_BUFFER_SECONDS = 300"

definition now :: "state \<Rightarrow> real" where
  "now s = clock s (ticks s)"

definition time_time :: "state \<Rightarrow> real \<times> state" where
  "time_time s = (now s, s\<lparr>ticks := Suc (ticks s)\<rparr>)"

definition requests_post :: "request \<Rightarrow> state \<Rightarrow> reply \<times> state" where
  "requests_post req s = (network s (length (posts s)) req, s\<lparr>posts := posts s @ [req]\<rparr>)"

text \<open>\<open>d.get(key, default)\<close> on a key whose lookup gave \<open>v\<close>.\<close>

definition dict_get :: "'a option \<Rightarrow> 'a \<Rightarrow> 'a" where
  "dict_get v dflt = (case v of None \<Rightarrow> dflt | Some x \<Rightarrow> x)"

definition is_expired :: "AuthToken \<Rightarrow> state \<Rightarrow> bool \<times> state" where
  "is_expired tok s = (let (t, s') = time_time s in (t \<ge> expires_at tok, s'))"

text \<open>\<open>and\<close> short-circuits: the clock is read only when \<open>access_token\<close> is non-empty.\<close>

definition is_valid :: "AuthToken \<Rightarrow> state \<Rightarrow> bool \<times> state" where
  "is_valid tok s =
     (if access_token tok \<noteq> [] then (let (e, s') = is_expired tok s in (\<not> e, s'))
      else (False, s))"

definition login_request :: "string \<Rightarrow> string \<Rightarrow> string \<Rightarrow> string \<Rightarrow> request" where
  "login_request base tenant email password =
     \<lparr>req_url = base @ ''/auth/login'',
      req_json = [(''email'', email), (''password'', password)],
      req_headers = [(''X-Tenant-ID'', tenant), (''Content-Type'', ''application/json'')],
      req_timeout = 10\<rparr>"

definition dummy_token :: "string \<Rightarrow> string \<Rightarrow> real \<Rightarrow> AuthToken" where
  "dummy_token tenant email t =
     \<lparr>access_token = ''dummy_token_'' @ tenant @ ''_'' @ email,
      refresh_token = None,
      expires_at = t + 3600,
      AuthToken.tenant_id = tenant,
      user_email = email\<rparr>"

definition request_token :: "string \<Rightarrow> string \<Rightarrow> string \<Rightarrow> state \<Rightarrow> AuthToken \<times> state" where
  "request_token tenant email password s =
     (let (r, s1) = requests_post (login_request (api_base_url s) tenant email password) s
      in case r of
           Ok_json data \<Rightarrow>
             (let (t, s2) = time_time s1
              in (\<lparr>access_token = dict_get (data_access_token data) [],
                   refresh_token = dict_get (data_refresh_token data) None,
                   expires_at = t + dict_get (data_expires_in data) 3600,
                   AuthToken.tenant_id = tenant,
                   user_email = email\<rparr>, s2))
         | _ \<Rightarrow>
             (let (t, s2) = time_time s1
              in (dummy_token tenant email t, s2)))"

definition fetch_and_store :: "string \<Rightarrow> string \<Rightarrow> string \<Rightarrow> state \<Rightarrow> AuthToken \<times> state" where
  "fetch_and_store tenant email password s =
     (let (token, s1) = request_token tenant email password s
      in (token, s1\<lparr>token_cache := (token_cache s1)((tenant, email) \<mapsto> token)\<rparr>))"

definition get_token :: "string \<Rightarrow> string \<Rightarrow> string \<Rightarrow> bool \<Rightarrow> state \<Rightarrow> AuthToken \<times> state" where
  "get_token tenant email password force_refresh s =
     (if force_refresh then fetch_and_store tenant email password s
      else case token_cache s (tenant, email) of
             None \<Rightarrow> fetch_and_store tenant email password s
           | Some cached_token \<Rightarrow>
               (let (valid, s1) = is_valid cached_token s
                in if valid then
                     (let (t, s2) = time_time s1
                      in if t < expires_at cached_token - EXPIRY_BUFFER_SECONDS
                         then (cached_token, s2)
                         else fetch_and_store tenant email password s2)
                   else fetch_and_store tenant email password s1))"

definition refresh_request :: "string \<Rightarrow> string \<Rightarrow> string \<Rightarrow> request" where
  "refresh_request base tenant r =
     \<lparr>req_url = base @ ''/auth/refresh'',
      req_json = [(''refresh_token'', r)],
      req_headers = [(''X-Tenant-ID'', tenant), (''Content-Type'', ''application/json'')],
      req_timeout = 10\<rparr>"

text \<open>
  \<open>not token.refresh_token\<close> holds for \<open>None\<close> and for the empty string, so both raise.
\<close>

definition no_refresh_token :: "AuthToken \<Rightarrow> bool" where
  "no_refresh_token tok = (case refresh_token tok of None \<Rightarrow> True | Some r \<Rightarrow> r = [])"

definition refresh_token_op :: "AuthToken \<Rightarrow> state \<Rightarrow> (error + AuthToken) \<times> state" where
  "refresh_token_op tok s =
     (if no_refresh_token tok then (Inl (ValueError ''No refresh token available''), s)
      else
        (let (r, s1) = requests_post
               (refresh_request (api_base_url s) (AuthToken.tenant_id tok)
                  (dict_get (refresh_token tok) [])) s
         in case r of
              Ok_json data \<Rightarrow>
                (let (t, s2) = time_time s1;
                     new_token =
                       \<lparr>access_token = dict_get (data_access_token data) [],
                        refresh_token = dict_get (data_refresh_token data) (refresh_token tok),
                        expires_at = t + dict_get (data_expires_in data) 3600,
                        AuthToken.tenant_id = AuthToken.tenant_id tok,
                        user_email = user_email tok\<rparr>;
                     cache_key = (AuthToken.tenant_id tok, user_email tok)
                 in (Inr new_token, s2\<lparr>token_cache := (token_cache s2)(cache_key \<mapsto> new_token)\<rparr>))
            | _ \<Rightarrow> (Inr tok, s1)))"

definition invalidate_token :: "string \<Rightarrow> string \<Rightarrow> state \<Rightarrow> state" where
  "invalidate_token tenant email s =
     (if (tenant, email) \<in> dom (token_cache s)
      then s\<lparr>token_cache := (token_cache s)((tenant, email) := None)\<rparr>
      else s)"

definition clear_cache :: "state \<Rightarrow> state" where
  "clear_cache s = s\<lparr>token_cache := Map.empty\<rparr>"

text \<open>
  The condition under which \<open>get_token\<close> returns the cached entry: no forced refresh, an
  entry under the key, \<open>is_valid()\<close> on it (a non-empty \<open>access_token\<close>, and the first
  clock reading below \<open>expires_at\<close>), and the second clock reading below
  \<open>expires_at - EXPIRY_BUFFER_SECONDS\<close>.
\<close>

definition cache_hit :: "string \<Rightarrow> string \<Rightarrow> bool \<Rightarrow> state \<Rightarrow> bool" where
  "cache_hit tenant email force_refresh s =
     (\<not> force_refresh \<and>
      (case token_cache s (tenant, email) of
         None \<Rightarrow> False
       | Some cached_token \<Rightarrow>
           access_token cached_token \<noteq> [] \<and> now s < expires_at cached_token \<and>
           clock s (Suc (ticks s)) < expires_at cached_token - EXPIRY_BUFFER_SECONDS))"

text \<open>The \<open>try\<close> block raised a \<open>requests.RequestException\<close>.\<close>

definition raised :: "reply \<Rightarrow> bool" where
  "raised r = (case r of Ok_json data \<Rightarrow> False | _ \<Rightarrow> True)"

section \<open>The dashboard's isolation check (pages/dashboard_page.py)\<close>

text \<open>
  The browser is not modelled: \<open>self.page.locator(PROJECT_CARD).all()\<close> is taken as the
  list of the rendered project cards in document order, each card given by what its
  \<open>text_content()\<close> returns (\<open>None\<close> for a node without text).
\<close>

text \<open>\<open>card.text_content() or ""\<close>.\<close>

definition text_or_empty :: "string option \<Rightarrow> string" where
  "text_or_empty c = (case c of None \<Rightarrow> [] | Some t \<Rightarrow> if t = [] then [] else t)"

text \<open>Python's \<open>needle in hay\<close> on strings: \<open>needle\<close> starts at some position of \<open>hay\<close>.\<close>

fun str_in :: "string \<Rightarrow> string \<Rightarrow> bool" where
  "str_in needle [] = (needle = [])"
| "str_in needle (c # cs) = (prefix needle (c # cs) \<or> str_in needle cs)"

text \<open>
  The \<open>for\<close> loop over the cards. The second component counts the cards whose text the
  loop has read, so that leaving the loop early can be told from running to its end.
\<close>

fun scan_cards :: "string \<Rightarrow> string option list \<Rightarrow> nat \<Rightarrow> bool \<times> nat" where
  "scan_cards excluded_tenant [] n = (True, n)"
| "scan_cards excluded_tenant (project_card # cards) n =
     (let text = text_or_empty project_card
      in if str_in excluded_tenant text then (False, Suc n)
         else scan_cards excluded_tenant cards (Suc n))"

definition verify_no_cross_tenant_data :: "string \<Rightarrow> string option list \<Rightarrow> bool \<times> nat" where
  "verify_no_cross_tenant_data excluded_tenant project_cards =
     scan_cards excluded_tenant project_cards 0"

section \<open>The API client's session state (utils/api_client.py)\<close>

text \<open>
  \<open>self.headers\<close> is a reference to a dictionary object, and \<open>set_token\<close> and
  \<open>set_tenant\<close> assign into that object. The dictionaries live in a store, addressed by
  references; a client holds the reference of its header dictionary.
\<close>

type_synonym ref = nat

record store =
  dicts :: "ref \<Rightarrow> (string \<rightharpoonup> string)"
  next_ref :: ref

text \<open>The arguments the constructor passes to \<open>urllib3\<close>'s \<open>Retry\<close>.\<close>

record Retry =
  total :: nat
  backoff_factor :: nat
  status_forcelist :: "nat list"

record APIClient =
  base_url :: string
  tenant_id :: string
  headers :: ref
  session :: Retry

text \<open>\<open>base_url.rstrip("/")\<close>: every trailing slash is removed.\<close>

definition rstrip_slash :: "string \<Rightarrow> string" where
  "rstrip_slash u = rev (dropWhile (\<lambda>c. c = CHR ''/'') (rev u))"

definition APIClient_init :: "string \<Rightarrow> string \<Rightarrow> string \<Rightarrow> store \<Rightarrow> APIClient \<times> store" where
  "APIClient_init url token tenant h =
     (\<lparr>base_url = rstrip_slash url,
       tenant_id = tenant,
       headers = next_ref h,
       session = \<lparr>total = 3, backoff_factor = 1, status_forcelist = [429, 500, 502, 503, 504]\<rparr>\<rparr>,
      h\<lparr>dicts := (dicts h)(next_ref h :=
            [''Authorization'' \<mapsto> ''Bearer '' @ token,
             ''X-Tenant-ID'' \<mapsto> tenant,
             ''Content-Type'' \<mapsto> ''application/json'']),
        next_ref := Suc (next_ref h)\<rparr>)"

definition set_token :: "string \<Rightarrow> APIClient \<Rightarrow> store \<Rightarrow> APIClient \<times> store" where
  "set_token token c h =
     (c, h\<lparr>dicts := (dicts h)(headers c :=
               (dicts h (headers c))(''Authorization'' \<mapsto> ''Bearer '' @ token))\<rparr>)"

definition set_tenant :: "string \<Rightarrow> APIClient \<Rightarrow> store \<Rightarrow> APIClient \<times> store" where
  "set_tenant tenant c h =
     (c\<lparr>tenant_id := tenant\<rparr>,
      h\<lparr>dicts := (dicts h)(headers c :=
            (dicts h (headers c))(''X-Tenant-ID'' \<mapsto> tenant))\<rparr>)"

subsection \<open>The session's retry loop\<close>

text \<open>
  Modelled from the documentation of \<open>urllib3\<close>, which is not part of the repository: what
  \<open>HTTPConnectionPool.urlopen\<close> does with the \<open>Retry\<close> object that the constructor
  mounts on the session, for the three arguments the constructor passes and the
  library's defaults for the others (\<open>allowed_methods\<close>, \<open>raise_on_status\<close>, the
  backoff ceiling). One attempt of a request ends in an error before the server received
  the request (connection refused, connect timeout), in an error after the request was
  started (read timeout, protocol error), or in a response with a status code. Responses
  are taken to carry no \<open>Retry-After\<close> header and no redirect.
\<close>

datatype http_method = HEAD | GET | PUT | DELETE | OPTIONS | TRACE | POST | PATCH

datatype attempt = Connect_error | Read_error | Response nat

datatype sent = Returned nat | Raised

text \<open>
  What a request through the session comes to: the response handed to the caller or an
  exception, the number of attempts made, and the seconds slept before each retry, in
  order.
\<close>

record run =
  outcome :: sent
  attempts :: nat
  sleeps :: "nat list"

definition DEFAULT_ALLOWED_METHODS :: "http_method list" where
  "DEFAULT_ALLOWED_METHODS = [HEAD, GET, PUT, DELETE, OPTIONS, TRACE]"

definition DEFAULT_BACKOFF_MAX :: nat where
  "DEFAULT_BACKOFF_MAX = 120"

text \<open>\<open>Retry._is_method_retryable\<close>: the method is one of \<open>allowed_methods\<close>.\<close>

definition is_method_retryable :: "http_method \<Rightarrow> bool" where
  "is_method_retryable m = (m \<in> set DEFAULT_ALLOWED_METHODS)"

text \<open>\<open>Retry.is_retry\<close> on a response without \<open>Retry-After\<close> header.\<close>

definition is_retry :: "Retry \<Rightarrow> http_method \<Rightarrow> nat \<Rightarrow> bool" where
  "is_retry cfg m status_code =
     (if \<not> is_method_retryable m then False
      else status_forcelist cfg \<noteq> [] \<and> status_code \<in> set (status_forcelist cfg))"

text \<open>
  \<open>Retry.get_backoff_time\<close>, from the number of consecutive failed attempts so far: no
  sleep before the first retry, then \<open>backoff_factor * 2 ^ (n - 1)\<close> seconds, at most
  \<open>DEFAULT_BACKOFF_MAX\<close>.
\<close>

definition get_backoff_time :: "Retry \<Rightarrow> nat \<Rightarrow> nat" where
  "get_backoff_time cfg consecutive_errors_len =
     (if consecutive_errors_len \<le> 1 then 0
      else min DEFAULT_BACKOFF_MAX (backoff_factor cfg * 2 ^ (consecutive_errors_len - 1)))"

text \<open>
  Whether \<open>Retry.increment\<close> is reached and lets a failed attempt count as a retry: always
  for an error before the request was received, for an error after the request was
  started only when the method is retryable, for a response when \<open>is_retry\<close> holds.
\<close>

definition retried :: "Retry \<Rightarrow> http_method \<Rightarrow> attempt \<Rightarrow> bool" where
  "retried cfg m a =
     (case a of
        Connect_error \<Rightarrow> True
      | Read_error \<Rightarrow> is_method_retryable m
      | Response status_code \<Rightarrow> is_retry cfg m status_code)"

text \<open>
  The loop of \<open>urlopen\<close>: \<open>left\<close> is the value of \<open>Retry.total\<close> and \<open>k\<close> the number of
  attempts already made. A failed attempt that counts decrements \<open>total\<close>; when that
  takes it below zero, \<open>MaxRetryError\<close> is raised, otherwise the loop sleeps and tries
  again. Any other attempt ends the loop: the response is returned, or the error raised.
\<close>

fun urlopen :: "Retry \<Rightarrow> http_method \<Rightarrow> (nat \<Rightarrow> attempt) \<Rightarrow> nat \<Rightarrow> nat \<Rightarrow> run" where
  "urlopen cfg m server left k =
     (if retried cfg m (server k) then
        (case left of
           0 \<Rightarrow> \<lparr>outcome = Raised, attempts = Suc k, sleeps = []\<rparr>
         | Suc left' \<Rightarrow>
             (let r = urlopen cfg m server left' (Suc k)
              in r\<lparr>sleeps := get_backoff_time cfg (Suc k) # sleeps r\<rparr>))
      else \<lparr>outcome = (case server k of Response status_code \<Rightarrow> Returned status_code | _ \<Rightarrow> Raised),
            attempts = Suc k, sleeps = []\<rparr>)"

declare urlopen.simps [simp del]


section \<open>Concrete states\<close>

text \<open>
  States and tokens at which the theorems below are evaluated. The clock starts at 1000
  and advances by one second with every reading.
\<close>

definition example_state :: "(nat \<Rightarrow> request \<Rightarrow> reply) \<Rightarrow> state" where
  "example_state net =
     \<lparr>token_cache = Map.empty,
      api_base_url = ''https://api.example.com/api/v1'',
      clock = (\<lambda>k. 1000 + real k),
      ticks = 0,
      network = net,
      posts = []\<rparr>"

definition example_token :: AuthToken where
  "example_token =
     \<lparr>access_token = ''abc'', refresh_token = Some ''r1'', expires_at = 5000,
      AuthToken.tenant_id = ''company1'', user_email = ''admin@company1.com''\<rparr>"

text \<open>Four networks: unreachable, answering 503, answering with an empty JSON object,
  and issuing a token that lasts two hours.\<close>

definition idle :: "nat \<Rightarrow> request \<Rightarrow> reply" where
  "idle k r = Transport_failure"

definition unavailable :: "nat \<Rightarrow> request \<Rightarrow> reply" where
  "unavailable k r = Http_error 503"

definition bare_reply :: "nat \<Rightarrow> request \<Rightarrow> reply" where
  "bare_reply k r = Ok_json \<lparr>data_access_token = None, data_refresh_token = None, data_expires_in = None\<rparr>"

definition issuing :: "nat \<Rightarrow> request \<Rightarrow> reply" where
  "issuing k r = Ok_json \<lparr>data_access_token = Some (''tok'' @ replicate k CHR ''x''), data_refresh_token = None, data_expires_in = Some 7200\<rparr>"

text \<open>A state whose cache holds a valid entry far from expiry.\<close>

definition cached_state :: state where
  "cached_state = (example_state issuing)
     \<lparr>token_cache := [(''company1'', ''admin@company1.com'') \<mapsto> example_token]\<rparr>"

text \<open>A network that answers a refresh with a new access token and no \<open>refresh_token\<close>.\<close>

definition refreshing :: "nat \<Rightarrow> request \<Rightarrow> reply" where
  "refreshing k r = Ok_json \<lparr>data_access_token = Some ''fresh'', data_refresh_token = None, data_expires_in = None\<rparr>"

text \<open>Four rendered cards, one of them without text.\<close>

definition example_cards :: "string option list" where
  "example_cards = [Some ''Alpha (company1)'', None, Some ''Beta (company2)'', Some ''Gamma (company2)'']"

text \<open>A client built by the constructor in an empty store, from a URL with a trailing slash.\<close>

definition empty_store :: store where
  "empty_store = \<lparr>dicts = (\<lambda>r. Map.empty), next_ref = 0\<rparr>"

definition example_client :: APIClient where
  "example_client =
     fst (APIClient_init ''https://api.example.com/'' ''old_token'' ''company1'' empty_store)"

definition example_store :: store where
  "example_store =
     snd (APIClient_init ''https://api.example.com/'' ''old_token'' ''company1'' empty_store)"



section \<open>Properties of the token\<close>

text \<open>
  C4. A token is valid exactly when its \<open>access_token\<close> is non-empty and the current time
  is strictly below \<open>expires_at\<close>. So a token whose \<open>expires_at\<close> lies in the past is
  invalid, a token with a non-empty \<open>access_token\<close> that expires one hour from now is
  valid, and a token whose \<open>expires_at\<close> equals the current time is expired and invalid.
\<close>

theorem is_valid_iff:
  "(fst (is_valid tok s) \<longleftrightarrow> access_token tok \<noteq> [] \<and> now s < expires_at tok)
   \<and> (expires_at tok < now s \<longrightarrow> \<not> fst (is_valid tok s))
   \<and> (access_token tok \<noteq> [] \<and> expires_at tok = now s + 3600 \<longrightarrow> fst (is_valid tok s))
   \<and> (expires_at tok = now s \<longrightarrow> fst (is_expired tok s) \<and> \<not> fst (is_valid tok s))"
  by (auto simp: is_valid_def is_expired_def time_time_def now_def)

theorem is_valid_iff_witness:
  "fst (is_valid example_token (example_state idle))
   \<and> (expires_at (example_token\<lparr>expires_at := 900\<rparr>) < now (example_state idle)
      \<and> \<not> fst (is_valid (example_token\<lparr>expires_at := 900\<rparr>) (example_state idle)))
   \<and> (access_token example_token \<noteq> []
      \<and> expires_at (example_token\<lparr>expires_at := 4600\<rparr>) = now (example_state idle) + 3600
      \<and> fst (is_valid (example_token\<lparr>expires_at := 4600\<rparr>) (example_state idle)))
   \<and> (expires_at (example_token\<lparr>expires_at := 1000\<rparr>) = now (example_state idle)
      \<and> fst (is_expired (example_token\<lparr>expires_at := 1000\<rparr>) (example_state idle))
      \<and> \<not> fst (is_valid (example_token\<lparr>expires_at := 1000\<rparr>) (example_state idle)))"
  using is_valid_iff [of example_token "example_state idle"]
    is_valid_iff [of "example_token\<lparr>expires_at := 900\<rparr>" "example_state idle"]
    is_valid_iff [of "example_token\<lparr>expires_at := 4600\<rparr>" "example_state idle"]
    is_valid_iff [of "example_token\<lparr>expires_at := 1000\<rparr>" "example_state idle"]
  by (simp add: example_token_def example_state_def now_def)

section \<open>Properties of the token cache\<close>

text \<open>What a fetch does to the state: one request is appended, the clock is read once.\<close>

lemma request_token_effects:
  "posts (snd (request_token tenant email password s)) =
     posts s @ [login_request (api_base_url s) tenant email password]
   \<and> token_cache (snd (request_token tenant email password s)) = token_cache s
   \<and> ticks (snd (request_token tenant email password s)) = Suc (ticks s)
   \<and> clock (snd (request_token tenant email password s)) = clock s
   \<and> network (snd (request_token tenant email password s)) = network s
   \<and> api_base_url (snd (request_token tenant email password s)) = api_base_url s"
  by (cases "network s (length (posts s)) (login_request (api_base_url s) tenant email password)")
     (simp_all add: request_token_def requests_post_def time_time_def)

lemma fetch_and_store_effects:
  "posts (snd (fetch_and_store tenant email password s)) =
     posts s @ [login_request (api_base_url s) tenant email password]
   \<and> token_cache (snd (fetch_and_store tenant email password s)) =
       (token_cache s)((tenant, email) \<mapsto> fst (fetch_and_store tenant email password s))
   \<and> fst (fetch_and_store tenant email password s) = fst (request_token tenant email password s)"
  using request_token_effects [of tenant email password s]
  by (simp add: fetch_and_store_def case_prod_beta)

lemma fetch_and_store_ticks:
  "posts (snd (fetch_and_store tenant email password (s\<lparr>ticks := n\<rparr>))) =
     posts s @ [login_request (api_base_url s) tenant email password]"
  using fetch_and_store_effects [of tenant email password "s\<lparr>ticks := n\<rparr>"] by simp

lemma get_token_hit:
  assumes "cache_hit tenant email force_refresh s"
  shows "get_token tenant email password force_refresh s =
           (the (token_cache s (tenant, email)), s\<lparr>ticks := ticks s + 2\<rparr>)"
  using assms
  by (auto simp: cache_hit_def get_token_def is_valid_def is_expired_def time_time_def now_def
           split: option.splits)

lemma get_token_miss:
  assumes "\<not> cache_hit tenant email force_refresh s"
  shows "posts (snd (get_token tenant email password force_refresh s)) =
           posts s @ [login_request (api_base_url s) tenant email password]"
  using assms fetch_and_store_effects [of tenant email password s]
    fetch_and_store_ticks [of tenant email password _ s]
  by (auto simp: cache_hit_def get_token_def is_valid_def is_expired_def time_time_def now_def
           split: option.splits)

lemma get_token_cached:
  "token_cache (snd (get_token tenant email password force_refresh s)) (tenant, email) =
     Some (fst (get_token tenant email password force_refresh s))"
proof (cases "cache_hit tenant email force_refresh s")
  case True
  then show ?thesis
    by (auto simp: get_token_hit cache_hit_def split: option.splits)
next
  case False
  then show ?thesis
    using fetch_and_store_effects [of tenant email password s]
      fetch_and_store_effects [of tenant email password "s\<lparr>ticks := Suc (ticks s)\<rparr>"]
      fetch_and_store_effects [of tenant email password "s\<lparr>ticks := Suc (Suc (ticks s))\<rparr>"]
    by (auto simp: cache_hit_def get_token_def is_valid_def is_expired_def time_time_def now_def
           split: option.splits)
qed

text \<open>
  C1, as stated, at a concrete input. The server answers the login with a JSON object
  that has no \<open>access_token\<close>. The first call stores a token that expires at 4600, more
  than 300 seconds after the clock's 1001; its \<open>access_token\<close> is empty, so \<open>is_valid()\<close>
  fails on it and the second call sends a second request and returns another token.
\<close>

theorem get_token_twice_counterexample:
  "token_cache (snd (get_token ''company1'' ''admin@company1.com'' ''pw'' False (example_state bare_reply)))
       (''company1'', ''admin@company1.com'') =
     Some (fst (get_token ''company1'' ''admin@company1.com'' ''pw'' False (example_state bare_reply)))
   \<and> expires_at (fst (get_token ''company1'' ''admin@company1.com'' ''pw'' False (example_state bare_reply))) = 4600
   \<and> now (snd (get_token ''company1'' ''admin@company1.com'' ''pw'' False (example_state bare_reply))) = 1001
   \<and> posts (snd (get_token ''company1'' ''admin@company1.com'' ''pw'' False (example_state bare_reply))) =
       [login_request ''https://api.example.com/api/v1'' ''company1'' ''admin@company1.com'' ''pw'']
   \<and> posts (snd (get_token ''company1'' ''admin@company1.com'' ''pw'' False
         (snd (get_token ''company1'' ''admin@company1.com'' ''pw'' False (example_state bare_reply))))) =
       [login_request ''https://api.example.com/api/v1'' ''company1'' ''admin@company1.com'' ''pw'',
        login_request ''https://api.example.com/api/v1'' ''company1'' ''admin@company1.com'' ''pw'']
   \<and> fst (get_token ''company1'' ''admin@company1.com'' ''pw'' False
         (snd (get_token ''company1'' ''admin@company1.com'' ''pw'' False (example_state bare_reply)))) \<noteq>
       fst (get_token ''company1'' ''admin@company1.com'' ''pw'' False (example_state bare_reply))"
  by (simp add: get_token_def fetch_and_store_def request_token_def requests_post_def
        time_time_def now_def is_valid_def dict_get_def example_state_def bare_reply_def)

text \<open>
  C1, amended. If \<open>get_token\<close> is called twice in succession without forced refresh and
  the token the first call returned has a non-empty \<open>access_token\<close> and an \<open>expires_at\<close>
  more than \<open>EXPIRY_BUFFER_SECONDS\<close> after both clock readings of the second call, then
  the second call returns that same token, sends no request and leaves the cache as it
  is. The cache-hit branch is the only one without a request: every call of \<open>get_token\<close>
  outside it sends exactly one login request.
\<close>

theorem get_token_twice:
  assumes "get_token tenant email password False s0 = (tok1, s1)"
    and "access_token tok1 \<noteq> []"
    and "now s1 < expires_at tok1 - EXPIRY_BUFFER_SECONDS"
    and "clock s1 (Suc (ticks s1)) < expires_at tok1 - EXPIRY_BUFFER_SECONDS"
  shows "get_token tenant email password False s1 = (tok1, s1\<lparr>ticks := ticks s1 + 2\<rparr>)
    \<and> posts (snd (get_token tenant email password False s1)) = posts s1
    \<and> (\<forall>force_refresh s.
          if cache_hit tenant email force_refresh s
          then posts (snd (get_token tenant email password force_refresh s)) = posts s
          else posts (snd (get_token tenant email password force_refresh s)) =
                 posts s @ [login_request (api_base_url s) tenant email password])"
proof -
  have stored: "token_cache s1 (tenant, email) = Some tok1"
    using get_token_cached [of tenant email password False s0] assms(1) by simp
  have "now s1 < expires_at tok1"
    using assms(3) by (simp add: EXPIRY_BUFFER_SECONDS_def)
  with stored assms(2,4) have hit: "cache_hit tenant email False s1"
    by (simp add: cache_hit_def)
  have first: "get_token tenant email password False s1 = (tok1, s1\<lparr>ticks := ticks s1 + 2\<rparr>)"
    using get_token_hit [OF hit, of password] stored by simp
  have rest: "\<forall>force_refresh s.
          if cache_hit tenant email force_refresh s
          then posts (snd (get_token tenant email password force_refresh s)) = posts s
          else posts (snd (get_token tenant email password force_refresh s)) =
                 posts s @ [login_request (api_base_url s) tenant email password]"
    by (simp add: get_token_hit get_token_miss)
  from first rest show ?thesis by simp
qed

theorem get_token_twice_witness:
  "access_token (fst (get_token ''company1'' ''admin@company1.com'' ''pw'' False (example_state issuing))) \<noteq> []
   \<and> now (snd (get_token ''company1'' ''admin@company1.com'' ''pw'' False (example_state issuing)))
       < expires_at (fst (get_token ''company1'' ''admin@company1.com'' ''pw'' False (example_state issuing)))
         - EXPIRY_BUFFER_SECONDS
   \<and> fst (get_token ''company1'' ''admin@company1.com'' ''pw'' False
         (snd (get_token ''company1'' ''admin@company1.com'' ''pw'' False (example_state issuing)))) =
       fst (get_token ''company1'' ''admin@company1.com'' ''pw'' False (example_state issuing))
   \<and> posts (snd (get_token ''company1'' ''admin@company1.com'' ''pw'' False
         (snd (get_token ''company1'' ''admin@company1.com'' ''pw'' False (example_state issuing))))) =
       [login_request ''https://api.example.com/api/v1'' ''company1'' ''admin@company1.com'' ''pw'']"
  using get_token_twice [of "''company1''" "''admin@company1.com''" "''pw''" "example_state issuing"
      "fst (get_token ''company1'' ''admin@company1.com'' ''pw'' False (example_state issuing))"
      "snd (get_token ''company1'' ''admin@company1.com'' ''pw'' False (example_state issuing))"]
  by (simp add: get_token_def fetch_and_store_def request_token_def requests_post_def
        time_time_def now_def is_valid_def is_expired_def dict_get_def example_state_def issuing_def
        EXPIRY_BUFFER_SECONDS_def)

text \<open>
  C3. When the token request fails (\<open>requests.post\<close> raises, or the response has an
  error status), \<open>_request_token\<close> returns the placeholder token: \<open>access_token\<close> is
  \<open>dummy_token_<tenant>_<email>\<close>, \<open>expires_at\<close> is one hour after the current time, and
  \<open>tenant_id\<close> and \<open>user_email\<close> are the arguments. One request was sent and the clock
  was read once; nothing else changed.
\<close>

theorem request_token_failure:
  assumes "raised (network s (length (posts s)) (login_request (api_base_url s) tenant email password))"
  shows "request_token tenant email password s =
     (\<lparr>access_token = ''dummy_token_'' @ tenant @ ''_'' @ email,
       refresh_token = None,
       expires_at = now s + 3600,
       AuthToken.tenant_id = tenant,
       user_email = email\<rparr>,
      s\<lparr>posts := posts s @ [login_request (api_base_url s) tenant email password],
        ticks := Suc (ticks s)\<rparr>)"
  using assms
  by (cases "network s (length (posts s)) (login_request (api_base_url s) tenant email password)")
     (simp_all add: raised_def request_token_def requests_post_def time_time_def now_def dummy_token_def)

theorem request_token_failure_witness:
  "raised (network (example_state idle) (length (posts (example_state idle)))
       (login_request (api_base_url (example_state idle)) ''company1'' ''admin@company1.com'' ''pw''))
   \<and> fst (request_token ''company1'' ''admin@company1.com'' ''pw'' (example_state idle)) =
       \<lparr>access_token = ''dummy_token_company1_admin@company1.com'', refresh_token = None,
        expires_at = 4600, AuthToken.tenant_id = ''company1'', user_email = ''admin@company1.com''\<rparr>
   \<and> raised (network (example_state unavailable) (length (posts (example_state unavailable)))
       (login_request (api_base_url (example_state unavailable)) ''company1'' ''admin@company1.com'' ''pw''))
   \<and> fst (request_token ''company1'' ''admin@company1.com'' ''pw'' (example_state unavailable)) =
       \<lparr>access_token = ''dummy_token_company1_admin@company1.com'', refresh_token = None,
        expires_at = 4600, AuthToken.tenant_id = ''company1'', user_email = ''admin@company1.com''\<rparr>"
  using request_token_failure [of "example_state idle" "''company1''" "''admin@company1.com''" "''pw''"]
    request_token_failure [of "example_state unavailable" "''company1''" "''admin@company1.com''" "''pw''"]
  by (simp add: raised_def idle_def unavailable_def example_state_def now_def)

text \<open>
  C6. With \<open>force_refresh\<close> set, \<open>get_token\<close> always sends a login request, whatever the
  cache holds, returns the token built from the answer, and afterwards the cache entry
  under \<open>(tenant, email)\<close> is that token; the other entries are untouched.
\<close>

theorem get_token_force_refresh:
  "get_token tenant email password True s = fetch_and_store tenant email password s
   \<and> posts (snd (get_token tenant email password True s)) =
       posts s @ [login_request (api_base_url s) tenant email password]
   \<and> fst (get_token tenant email password True s) = fst (request_token tenant email password s)
   \<and> token_cache (snd (get_token tenant email password True s)) =
       (token_cache s)((tenant, email) \<mapsto> fst (request_token tenant email password s))"
  using fetch_and_store_effects [of tenant email password s]
  by (simp add: get_token_def)

theorem get_token_force_refresh_witness:
  "cache_hit ''company1'' ''admin@company1.com'' False cached_state
   \<and> token_cache cached_state (''company1'', ''admin@company1.com'') = Some example_token
   \<and> posts (snd (get_token ''company1'' ''admin@company1.com'' ''pw'' True cached_state)) =
       [login_request ''https://api.example.com/api/v1'' ''company1'' ''admin@company1.com'' ''pw'']
   \<and> token_cache (snd (get_token ''company1'' ''admin@company1.com'' ''pw'' True cached_state))
       (''company1'', ''admin@company1.com'') =
       Some \<lparr>access_token = ''tok'', refresh_token = None, expires_at = 8200,
             AuthToken.tenant_id = ''company1'', user_email = ''admin@company1.com''\<rparr>"
  using get_token_force_refresh [of "''company1''" "''admin@company1.com''" "''pw''" cached_state]
  by (simp add: cache_hit_def cached_state_def example_state_def example_token_def issuing_def
        get_token_def fetch_and_store_def request_token_def requests_post_def time_time_def
        now_def dict_get_def EXPIRY_BUFFER_SECONDS_def)

text \<open>
  C7. After \<open>clear_cache\<close> the cache is empty, so the next \<open>get_token\<close>, for any key and
  either value of \<open>force_refresh\<close>, cannot take the cache-hit branch: it sends a login
  request and stores what it fetched.
\<close>

theorem get_token_after_clear_cache:
  "token_cache (clear_cache s) = Map.empty
   \<and> \<not> cache_hit tenant email force_refresh (clear_cache s)
   \<and> get_token tenant email password force_refresh (clear_cache s) =
       fetch_and_store tenant email password (clear_cache s)
   \<and> posts (snd (get_token tenant email password force_refresh (clear_cache s))) =
       posts s @ [login_request (api_base_url s) tenant email password]"
  using fetch_and_store_effects [of tenant email password "clear_cache s"]
  by (simp add: clear_cache_def get_token_def cache_hit_def)

theorem get_token_after_clear_cache_witness:
  "cache_hit ''company1'' ''admin@company1.com'' False cached_state
   \<and> posts (snd (get_token ''company1'' ''admin@company1.com'' ''pw'' False cached_state)) = []
   \<and> posts (snd (get_token ''company1'' ''admin@company1.com'' ''pw'' False (clear_cache cached_state))) =
       [login_request ''https://api.example.com/api/v1'' ''company1'' ''admin@company1.com'' ''pw'']"
  using get_token_after_clear_cache [of cached_state "''company1''" "''admin@company1.com''" False "''pw''"]
  by (simp add: cache_hit_def cached_state_def example_state_def example_token_def
        get_token_def is_valid_def is_expired_def time_time_def now_def clear_cache_def
        fetch_and_store_def request_token_def requests_post_def issuing_def dict_get_def
        EXPIRY_BUFFER_SECONDS_def)

section \<open>Refreshing a token\<close>

text \<open>
  C5. \<open>refresh_token\<close> on a token without a refresh token (\<open>None\<close>, or the empty string,
  which \<open>not token.refresh_token\<close> treats alike) raises \<open>ValueError("No refresh token
  available")\<close> and leaves the whole state as it is: no request, no change of the cache.
  With a refresh token \<open>r\<close>, when the refresh call succeeds the new token is stored under
  \<open>(tenant_id, user_email)\<close> and returned; when the call raises a \<open>RequestException\<close> the
  old token is returned as it is, and only the request sent is added to the state, so the
  cache is unchanged.
\<close>

theorem refresh_token_cases:
  "(refresh_token tok = None \<or> refresh_token tok = Some [] \<longrightarrow>
      refresh_token_op tok s = (Inl (ValueError ''No refresh token available''), s))
   \<and> (refresh_token tok = Some r \<and> r \<noteq> [] \<and>
      network s (length (posts s))
        (refresh_request (api_base_url s) (AuthToken.tenant_id tok) r) = Ok_json data \<longrightarrow>
      refresh_token_op tok s =
        (Inr \<lparr>access_token = dict_get (data_access_token data) [],
              refresh_token = dict_get (data_refresh_token data) (Some r),
              expires_at = now s + dict_get (data_expires_in data) 3600,
              AuthToken.tenant_id = AuthToken.tenant_id tok,
              user_email = user_email tok\<rparr>,
         s\<lparr>posts := posts s @ [refresh_request (api_base_url s) (AuthToken.tenant_id tok) r],
           ticks := Suc (ticks s),
           token_cache := (token_cache s)((AuthToken.tenant_id tok, user_email tok) \<mapsto>
             \<lparr>access_token = dict_get (data_access_token data) [],
              refresh_token = dict_get (data_refresh_token data) (Some r),
              expires_at = now s + dict_get (data_expires_in data) 3600,
              AuthToken.tenant_id = AuthToken.tenant_id tok,
              user_email = user_email tok\<rparr>)\<rparr>))
   \<and> (refresh_token tok = Some r \<and> r \<noteq> [] \<and>
      raised (network s (length (posts s))
        (refresh_request (api_base_url s) (AuthToken.tenant_id tok) r)) \<longrightarrow>
      refresh_token_op tok s =
        (Inr tok, s\<lparr>posts := posts s @ [refresh_request (api_base_url s) (AuthToken.tenant_id tok) r]\<rparr>))"
  by (cases "network s (length (posts s))
        (refresh_request (api_base_url s) (AuthToken.tenant_id tok) r)")
     (auto simp: refresh_token_op_def no_refresh_token_def raised_def requests_post_def
        time_time_def now_def dict_get_def Let_def)

theorem refresh_token_cases_witness:
  "refresh_token (example_token\<lparr>refresh_token := None\<rparr>) = None
   \<and> refresh_token_op (example_token\<lparr>refresh_token := None\<rparr>) (example_state refreshing) =
       (Inl (ValueError ''No refresh token available''), example_state refreshing)
   \<and> fst (refresh_token_op example_token (example_state refreshing)) =
       Inr \<lparr>access_token = ''fresh'', refresh_token = Some ''r1'', expires_at = 4600,
            AuthToken.tenant_id = ''company1'', user_email = ''admin@company1.com''\<rparr>
   \<and> token_cache (snd (refresh_token_op example_token (example_state refreshing)))
        (''company1'', ''admin@company1.com'') =
       Some \<lparr>access_token = ''fresh'', refresh_token = Some ''r1'', expires_at = 4600,
            AuthToken.tenant_id = ''company1'', user_email = ''admin@company1.com''\<rparr>
   \<and> refresh_token_op example_token (example_state idle) =
       (Inr example_token,
        (example_state idle)\<lparr>posts := [refresh_request ''https://api.example.com/api/v1'' ''company1'' ''r1'']\<rparr>)"
  using refresh_token_cases [where tok = "example_token\<lparr>refresh_token := None\<rparr>"
      and s = "example_state refreshing"]
    refresh_token_cases [where tok = example_token and r = "''r1''"
      and s = "example_state refreshing"
      and data = "\<lparr>data_access_token = Some ''fresh'', data_refresh_token = None,
                  data_expires_in = None\<rparr>"]
    refresh_token_cases [where tok = example_token and r = "''r1''" and s = "example_state idle"]
  by (simp add: example_token_def example_state_def refreshing_def idle_def raised_def
        now_def dict_get_def)

text \<open>
  C10. When the refresh call succeeds and the body has no \<open>refresh_token\<close> key, the new
  token, returned and stored in the cache, carries the old token's \<open>refresh_token\<close>.
\<close>

theorem refresh_keeps_refresh_token:
  assumes "refresh_token tok = Some r" and "r \<noteq> []"
    and "network s (length (posts s))
           (refresh_request (api_base_url s) (AuthToken.tenant_id tok) r) = Ok_json data"
    and "data_refresh_token data = None"
  shows "\<exists>new_token. refresh_token_op tok s =
           (Inr new_token,
            s\<lparr>posts := posts s @ [refresh_request (api_base_url s) (AuthToken.tenant_id tok) r],
              ticks := Suc (ticks s),
              token_cache := (token_cache s)((AuthToken.tenant_id tok, user_email tok) \<mapsto> new_token)\<rparr>)
         \<and> refresh_token new_token = refresh_token tok"
  using assms
  by (simp add: refresh_token_op_def no_refresh_token_def requests_post_def
        time_time_def now_def dict_get_def Let_def)

theorem refresh_keeps_refresh_token_witness:
  "refresh_token example_token = Some ''r1''
   \<and> data_refresh_token \<lparr>data_access_token = Some ''fresh'', data_refresh_token = None, data_expires_in = None\<rparr> = None
   \<and> (\<exists>new_token. fst (refresh_token_op example_token (example_state refreshing)) = Inr new_token
        \<and> refresh_token new_token = Some ''r1'')"
  using refresh_keeps_refresh_token [where tok = example_token and r = "''r1''"
      and s = "example_state refreshing"
      and data = "\<lparr>data_access_token = Some ''fresh'', data_refresh_token = None,
                  data_expires_in = None\<rparr>"]
  by (auto simp: example_token_def example_state_def refreshing_def)

section \<open>Properties of the isolation check\<close>

text \<open>\<open>str_in\<close> is the substring relation.\<close>

lemma str_in_iff: "str_in needle hay \<longleftrightarrow> (\<exists>pre suf. hay = pre @ needle @ suf)"
proof -
  have "str_in needle hay = sublist needle hay"
    by (induction hay) (simp_all add: sublist_Cons_right)
  then show ?thesis by (simp add: sublist_def)
qed

lemma scan_cards_result:
  "fst (scan_cards e cards n) \<longleftrightarrow> (\<forall>c \<in> set cards. \<not> str_in e (text_or_empty c))"
  by (induction cards arbitrary: n) (simp_all add: Let_def)

lemma scan_cards_reads:
  "snd (scan_cards e cards n) =
     n + (if \<forall>c \<in> set cards. \<not> str_in e (text_or_empty c) then length cards
          else Suc (length (takeWhile (\<lambda>c. \<not> str_in e (text_or_empty c)) cards)))"
  by (induction cards arbitrary: n) (simp_all add: Let_def)

lemma takeWhile_short:
  "\<not> (\<forall>c \<in> set xs. P c) \<Longrightarrow> length (takeWhile P xs) < length xs"
  by (induction xs) auto

text \<open>
  C8. \<open>verify_no_cross_tenant_data\<close> returns true exactly when no rendered card's text
  contains \<open>excluded_tenant\<close> as a substring. The scan is linear and stops at the first
  card that contains it: the number of cards read is the position of that card, or the
  number of cards when there is none.
\<close>

theorem verify_no_cross_tenant_data_scan:
  "(fst (verify_no_cross_tenant_data excluded_tenant cards) \<longleftrightarrow>
      (\<forall>c \<in> set cards. \<not> (\<exists>pre suf. text_or_empty c = pre @ excluded_tenant @ suf)))
   \<and> snd (verify_no_cross_tenant_data excluded_tenant cards) =
       (if fst (verify_no_cross_tenant_data excluded_tenant cards) then length cards
        else Suc (length (takeWhile
               (\<lambda>c. \<not> (\<exists>pre suf. text_or_empty c = pre @ excluded_tenant @ suf)) cards)))
   \<and> snd (verify_no_cross_tenant_data excluded_tenant cards) \<le> length cards"
proof -
  let ?clean = "\<lambda>c. \<not> str_in excluded_tenant (text_or_empty c)"
  have res: "fst (verify_no_cross_tenant_data excluded_tenant cards) \<longleftrightarrow> (\<forall>c \<in> set cards. ?clean c)"
    by (simp add: verify_no_cross_tenant_data_def scan_cards_result)
  have reads: "snd (verify_no_cross_tenant_data excluded_tenant cards) =
      (if \<forall>c \<in> set cards. ?clean c then length cards
       else Suc (length (takeWhile ?clean cards)))"
    by (simp add: verify_no_cross_tenant_data_def scan_cards_reads)
  have bound: "snd (verify_no_cross_tenant_data excluded_tenant cards) \<le> length cards"
  proof (cases "\<forall>c \<in> set cards. ?clean c")
    case True
    with reads show ?thesis by simp
  next
    case False
    from takeWhile_short [OF False] reads False show ?thesis by simp
  qed
  from res reads bound show ?thesis
    unfolding str_in_iff by simp
qed

theorem verify_no_cross_tenant_data_scan_witness:
  "verify_no_cross_tenant_data ''company2'' example_cards = (False, 3)
   \<and> verify_no_cross_tenant_data ''company3'' example_cards = (True, 4)
   \<and> length example_cards = 4"
  using verify_no_cross_tenant_data_scan [of "''company2''" example_cards, folded str_in_iff]
    verify_no_cross_tenant_data_scan [of "''company3''" example_cards, folded str_in_iff]
  by (simp add: verify_no_cross_tenant_data_def example_cards_def text_or_empty_def)

section \<open>Properties of the API client\<close>

text \<open>
  C9. \<open>set_token\<close> assigns into the client's own header dictionary: the client (its
  \<open>base_url\<close>, \<open>tenant_id\<close> and the reference to its headers) is unchanged, the
  \<open>Authorization\<close> header becomes \<open>Bearer <token>\<close>, and every other header, among them
  \<open>X-Tenant-ID\<close> and \<open>Content-Type\<close>, and every other dictionary of the store keeps its
  value. \<open>set_tenant\<close> changes the client's \<open>tenant_id\<close> and the \<open>X-Tenant-ID\<close> header of
  the same dictionary and nothing else: \<open>base_url\<close>, \<open>Authorization\<close> and
  \<open>Content-Type\<close> keep their values.
\<close>

theorem set_token_set_tenant_frame:
  "fst (set_token token c h) = c
   \<and> dicts (snd (set_token token c h)) (headers c) ''Authorization'' = Some (''Bearer '' @ token)
   \<and> dicts (snd (set_token token c h)) (headers c) ''X-Tenant-ID'' =
       dicts h (headers c) ''X-Tenant-ID''
   \<and> dicts (snd (set_token token c h)) (headers c) ''Content-Type'' =
       dicts h (headers c) ''Content-Type''
   \<and> (\<forall>k. k \<noteq> ''Authorization'' \<longrightarrow>
         dicts (snd (set_token token c h)) (headers c) k = dicts h (headers c) k)
   \<and> (\<forall>r. r \<noteq> headers c \<longrightarrow> dicts (snd (set_token token c h)) r = dicts h r)
   \<and> next_ref (snd (set_token token c h)) = next_ref h
   \<and> fst (set_tenant tenant c h) = c\<lparr>tenant_id := tenant\<rparr>
   \<and> base_url (fst (set_tenant tenant c h)) = base_url c
   \<and> headers (fst (set_tenant tenant c h)) = headers c
   \<and> dicts (snd (set_tenant tenant c h)) (headers c) ''X-Tenant-ID'' = Some tenant
   \<and> dicts (snd (set_tenant tenant c h)) (headers c) ''Authorization'' =
       dicts h (headers c) ''Authorization''
   \<and> dicts (snd (set_tenant tenant c h)) (headers c) ''Content-Type'' =
       dicts h (headers c) ''Content-Type''
   \<and> (\<forall>k. k \<noteq> ''X-Tenant-ID'' \<longrightarrow>
         dicts (snd (set_tenant tenant c h)) (headers c) k = dicts h (headers c) k)
   \<and> (\<forall>r. r \<noteq> headers c \<longrightarrow> dicts (snd (set_tenant tenant c h)) r = dicts h r)
   \<and> next_ref (snd (set_tenant tenant c h)) = next_ref h"
  by (simp add: set_token_def set_tenant_def)

theorem set_token_set_tenant_frame_witness:
  "base_url example_client = ''https://api.example.com''
   \<and> headers example_client = 0
   \<and> ''Content-Type'' \<noteq> ''Authorization''
   \<and> (1::nat) \<noteq> headers example_client
   \<and> fst (set_token ''new_token'' example_client example_store) = example_client
   \<and> dicts (snd (set_token ''new_token'' example_client example_store)) 0 =
       [''Authorization'' \<mapsto> ''Bearer new_token'', ''X-Tenant-ID'' \<mapsto> ''company1'',
        ''Content-Type'' \<mapsto> ''application/json'']
   \<and> dicts (snd (set_token ''new_token'' example_client example_store)) 1 = dicts example_store 1
   \<and> APIClient.tenant_id (fst (set_tenant ''company2'' example_client example_store)) = ''company2''
   \<and> dicts (snd (set_tenant ''company2'' example_client example_store)) 0 =
       [''Authorization'' \<mapsto> ''Bearer old_token'', ''X-Tenant-ID'' \<mapsto> ''company2'',
        ''Content-Type'' \<mapsto> ''application/json'']"
  using set_token_set_tenant_frame [of "''new_token''" example_client example_store "''company2''"]
  by (auto simp: example_client_def example_store_def empty_store_def APIClient_init_def
        rstrip_slash_def set_token_def set_tenant_def fun_upd_def)

section \<open>Properties of the retry policy\<close>




lemma urlopen_stops:
  "attempts (urlopen cfg m server left k) < Suc (k + left) \<Longrightarrow>
     \<not> retried cfg m (server (attempts (urlopen cfg m server left k) - 1))"
proof (induction left arbitrary: k)
  case 0
  then show ?case by (simp add: urlopen.simps [of _ _ _ 0] split: if_splits)
next
  case (Suc left)
  show ?case
  proof (cases "retried cfg m (server k)")
    case True
    with Suc.prems have "attempts (urlopen cfg m server left (Suc k)) < Suc (Suc k + left)"
      by (simp add: urlopen.simps [of _ _ _ "Suc left"] Let_def)
    from Suc.IH [OF this] True show ?thesis
      by (simp add: urlopen.simps [of _ _ _ "Suc left"] Let_def)
  next
    case False
    then show ?thesis by (simp add: urlopen.simps [of _ _ _ "Suc left"])
  qed
qed






end
